theory Spec2Isabelle
  imports Main
begin

section \<open>Strings\<close>

text \<open>
  The judge works on Python strings. They are modelled as \<open>string\<close>; the raw input is
  taken to be ASCII text, on which \<^verbatim>\<open>str.lower\<close> maps the 26 capital letters to
  their small forms and leaves every other character alone.
\<close>

definition lower_char :: "char \<Rightarrow> char" where
  "lower_char c =
     (case map_of (zip ''ABCDEFGHIJKLMNOPQRSTUVWXYZ'' ''abcdefghijklmnopqrstuvwxyz'') c of
        Some d \<Rightarrow> d
      | None \<Rightarrow> c)"

definition lower :: "string \<Rightarrow> string" where
  "lower s = map lower_char s"

text \<open>\<^verbatim>\<open>s.startswith(k)\<close>, and the substring test \<^verbatim>\<open>k in s\<close>.\<close>

fun startswith :: "string \<Rightarrow> string \<Rightarrow> bool" where
  "startswith s [] = True"
| "startswith [] (k # ks) = False"
| "startswith (c # cs) (k # ks) = (c = k \<and> startswith cs ks)"

fun str_in :: "string \<Rightarrow> string \<Rightarrow> bool" where
  "str_in k [] = (k = [])"
| "str_in k (c # cs) = (startswith (c # cs) k \<or> str_in k cs)"

text \<open>\<^verbatim>\<open>any(k in s for k in keys)\<close>.\<close>

definition any_in :: "string list \<Rightarrow> string \<Rightarrow> bool" where
  "any_in keys s = list_ex (\<lambda>k. str_in k s) keys"

text \<open>\<^verbatim>\<open>str(x)\<close> inside an f-string, for a value that is a string or \<^verbatim>\<open>None\<close>.\<close>

definition fmt :: "string option \<Rightarrow> string" where
  "fmt x = (case x of None \<Rightarrow> ''None'' | Some s \<Rightarrow> s)"

text \<open>Truthiness of a value that is a string or \<^verbatim>\<open>None\<close>.\<close>

definition truthy :: "string option \<Rightarrow> bool" where
  "truthy x = (case x of None \<Rightarrow> False | Some s \<Rightarrow> s \<noteq> [])"


section \<open>Intent heuristics of \<^verbatim>\<open>mock_judge_response\<close>\<close>

definition rock_keys :: "string list" where
  "rock_keys = [''rock'', ''rok'', ''stone'', ''boulder'', ''fist'']"

definition paper_keys :: "string list" where
  "paper_keys = [''paper'', ''ppr'', ''pap'', ''sheet'', ''document'']"

definition scissors_keys :: "string list" where
  "scissors_keys = [''scissors'', ''scissor'', ''sciz'', ''snip'', ''shears'']"

definition bomb_keys :: "string list" where
  "bomb_keys = [''bomb'', ''boom'', ''nuke'', ''dynamite'', ''c4'', ''explosion'']"

text \<open>The dictionary \<^verbatim>\<open>move_map\<close>, in insertion order (the order \<^verbatim>\<open>items()\<close> yields).\<close>

definition move_map :: "(string \<times> string list) list" where
  "move_map =
     [(''rock'', rock_keys), (''paper'', paper_keys),
      (''scissors'', scissors_keys), (''bomb'', bomb_keys)]"

definition refuses :: "string list" where
  "refuses = [''pass'', ''skip'', ''i don't want'', ''dont want'', ''not play'', ''nope'']"

text \<open>
  The inner loop \<^verbatim>\<open>for k in keys\<close>: the last argument is \<^verbatim>\<open>move_understood\<close>
  on entry, the result is its value when the loop is left.
\<close>

fun scan_keys :: "string \<Rightarrow> string \<Rightarrow> string list \<Rightarrow> string option \<Rightarrow> string option" where
  "scan_keys raw_l mv [] mu = mu"
| "scan_keys raw_l mv (k # keys) mu =
     (if str_in k raw_l then Some mv else scan_keys raw_l mv keys mu)"

text \<open>The outer loop \<^verbatim>\<open>for mv, keys in move_map.items()\<close>.\<close>

fun scan_moves :: "string \<Rightarrow> (string \<times> string list) list \<Rightarrow> string option \<Rightarrow> string option" where
  "scan_moves raw_l [] mu = mu"
| "scan_moves raw_l ((mv, keys) # rest) mu =
     (let mu' = scan_keys raw_l mv keys mu
      in if truthy mu' then mu' else scan_moves raw_l rest mu')"

text \<open>
  Lines 139 to 162: from the raw input (the context's \<^verbatim>\<open>player2_move\<close>, after
  \<^verbatim>\<open>or ""\<close>) to \<^verbatim>\<open>move_understood\<close>, refusals included.
\<close>

definition intent_resolver :: "string \<Rightarrow> string option" where
  "intent_resolver raw =
     (let raw_l = lower raw;
          move_understood = scan_moves raw_l move_map None
      in if any_in refuses raw_l then None else move_understood)"


section \<open>The records of a round\<close>

text \<open>The dictionary \<^verbatim>\<open>game_context\<close> that \<^verbatim>\<open>play_round\<close> builds for the judge.\<close>

record game_context =
  gc_round_number :: int
  gc_player1_move :: "string option"
  gc_player2_move :: "string option"
  gc_player1_bomb_used :: bool
  gc_player2_bomb_used :: bool

text \<open>The judge's decision, section by section of the returned dictionary.\<close>

record intent_understanding_t =
  move_understood :: "string option"
  reasoning :: string

record validation_t =
  status :: string
  reason :: string

record game_logic_t =
  gl_player1_move :: "string option"
  gl_player2_move :: "string option"
  round_winner :: "string option"
  round_explanation :: string

record bombs_remaining_t =
  br_player1 :: string
  br_player2 :: string

record state_update_t =
  su_player1_bomb_used :: bool
  su_player2_bomb_used :: bool
  bombs_remaining :: bombs_remaining_t

record final_result_t =
  move_accepted :: bool
  action :: string
  player_message :: string

text \<open>
  A decision may come from the external judge, whose JSON may lack the
  \<^verbatim>\<open>game_logic\<close> section (the tally reads it with a default), so that section is
  optional in the record.
\<close>

record decision =
  d_round_number :: int
  player2_raw_input :: string
  intent_understanding :: intent_understanding_t
  validation :: validation_t
  game_logic :: "game_logic_t option"
  state_update :: state_update_t
  final_result :: final_result_t

record game_state =
  round_number :: int
  player1_bomb_used :: bool
  player2_bomb_used :: bool
  rounds :: "decision list"

definition initialize_game :: game_state where
  "initialize_game =
     \<lparr>round_number = 1, player1_bomb_used = False, player2_bomb_used = False, rounds = []\<rparr>"


section \<open>The mock judge\<close>

text \<open>Lines 164 to 173: the validation status and its reason.\<close>

definition validate :: "string option \<Rightarrow> bool \<Rightarrow> string \<times> string" where
  "validate mu p2_bomb_used =
     (if mu = None then
        (''UNCLEAR'', ''Could not determine move from input.'')
      else if mu = Some ''bomb'' \<and> p2_bomb_used then
        (''INVALID'', ''Bomb already used by player 2.'')
      else
        (''VALID'', ''Move recognized and constraints satisfied.''))"

text \<open>The dictionary \<^verbatim>\<open>beats\<close> and \<^verbatim>\<open>beats.get(x)\<close> for a move that may be \<^verbatim>\<open>None\<close>.\<close>

definition beats :: "string \<rightharpoonup> string" where
  "beats = map_of [(''rock'', ''scissors''), (''scissors'', ''paper''), (''paper'', ''rock'')]"

definition beats_get :: "string option \<Rightarrow> string option" where
  "beats_get x = (case x of None \<Rightarrow> None | Some m \<Rightarrow> beats m)"

text \<open>
  Lines 176 to 206: the round's winner and explanation, from the validation status,
  player 1's move and the understood move of player 2.
\<close>

definition simple_game_logic ::
  "string \<Rightarrow> string option \<Rightarrow> string option \<Rightarrow> string option \<times> string" where
  "simple_game_logic validation_status p1 p2 =
     (if validation_status = ''VALID'' then
        (if p1 = p2 then
           (Some ''draw'', ''Both players played '' @ fmt p1 @ ''. It's a draw.'')
         else if p1 = Some ''bomb'' \<and> p2 = Some ''bomb'' then
           (Some ''draw'', ''Both players used bomb. Draw.'')
         else if p1 = Some ''bomb'' then
           (Some ''player1'', ''Player1's bomb beats player2's move.'')
         else if p2 = Some ''bomb'' then
           (Some ''player2'', ''Player2's bomb beats player1's move.'')
         else if beats_get p1 = p2 then
           (Some ''player1'', fmt p1 @ '' beats '' @ fmt p2 @ ''.'')
         else if beats_get p2 = p1 then
           (Some ''player2'', fmt p2 @ '' beats '' @ fmt p1 @ ''.'')
         else
           (Some ''draw'', ''No clear winner (unexpected input).''))
      else (None, ''No winner determined.''))"

text \<open>Lines 208 to 212: the bomb flags of the state update.\<close>

definition state_updates :: "string \<Rightarrow> string option \<Rightarrow> bool \<Rightarrow> bool \<Rightarrow> bool \<times> bool" where
  "state_updates validation_status p2 p1_used p2_used =
     (let p1_bomb = p1_used;
          p2_bomb = (if validation_status = ''VALID'' \<and> p2 = Some ''bomb'' then True else p2_used)
      in (p1_bomb, p2_bomb))"

definition mock_judge_response :: "string \<Rightarrow> game_context \<Rightarrow> decision" where
  "mock_judge_response system_prompt game_context =
     (let raw = (case gc_player2_move game_context of None \<Rightarrow> [] | Some s \<Rightarrow> s);
          mu = intent_resolver raw;
          (validation_status, validation_reason) =
             validate mu (gc_player2_bomb_used game_context);
          p1 = gc_player1_move game_context;
          p2 = mu;
          (rw, rexp) = simple_game_logic validation_status p1 p2;
          (p1_bomb, p2_bomb) =
             state_updates validation_status p2
               (gc_player1_bomb_used game_context) (gc_player2_bomb_used game_context)
      in \<lparr>d_round_number = gc_round_number game_context,
          player2_raw_input = raw,
          intent_understanding =
            \<lparr>move_understood = p2,
             reasoning = ''Matched keywords heuristically in mock mode.''\<rparr>,
          validation = \<lparr>status = validation_status, reason = validation_reason\<rparr>,
          game_logic =
            Some \<lparr>gl_player1_move = p1, gl_player2_move = p2,
                  round_winner = rw, round_explanation = rexp\<rparr>,
          state_update =
            \<lparr>su_player1_bomb_used = p1_bomb,
             su_player2_bomb_used = p2_bomb,
             bombs_remaining =
               \<lparr>br_player1 = (if p1_bomb then ''0'' else ''1''),
                br_player2 = (if p2_bomb then ''0'' else ''1'')\<rparr>\<rparr>,
          final_result =
            \<lparr>move_accepted = (validation_status = ''VALID''),
             action =
               (if validation_status = ''VALID'' then ''PLAYED''
                else if validation_status = ''INVALID'' then ''REJECTED''
                else ''UNCLEAR_MOVE''),
             player_message =
               ''(MOCK) '' @
               (if validation_status = ''VALID'' then ''Move accepted.''
                else validation_reason)\<rparr>\<rparr>)"


section \<open>Playing a round\<close>

text \<open>
  The external judge is not part of the program. A client is modelled by what a call to
  it can do: raise (the round falls back to the mock judge), answer with text that parses
  to a decision, or answer with text that \<^verbatim>\<open>json.loads\<close> rejects. No client
  (\<open>None\<close>) is mock mode.
\<close>

datatype backend_reply = Raised | Parsed decision | Unparsable

text \<open>
  The exceptions that leave the program: \<^verbatim>\<open>json.loads\<close> on text that is not JSON,
  and indexing a decision by a section it does not have.
\<close>

datatype error = JSONDecodeError | KeyError

type_synonym client = "string \<Rightarrow> game_context \<Rightarrow> backend_reply"

definition play_round ::
  "client option \<Rightarrow> string \<Rightarrow> game_state \<Rightarrow> string \<Rightarrow> string option
     \<Rightarrow> error + (game_state \<times> decision)" where
  "play_round cl system_prompt gs player2_input player1_move =
     (let game_context =
            \<lparr>gc_round_number = round_number gs,
             gc_player1_move = player1_move,
             gc_player2_move = Some player2_input,
             gc_player1_bomb_used = player1_bomb_used gs,
             gc_player2_bomb_used = player2_bomb_used gs\<rparr>;
          judged =
            (case cl of
               None \<Rightarrow> Inr (mock_judge_response system_prompt game_context)
             | Some c \<Rightarrow>
                 (case c system_prompt game_context of
                    Raised \<Rightarrow> Inr (mock_judge_response system_prompt game_context)
                  | Parsed d \<Rightarrow> Inr d
                  | Unparsable \<Rightarrow> Inl JSONDecodeError))
      in case judged of
           Inl e \<Rightarrow> Inl e
         | Inr judge_decision \<Rightarrow>
             (let gs1 =
                    (if move_accepted (final_result judge_decision) then
                       gs\<lparr>player1_bomb_used :=
                            su_player1_bomb_used (state_update judge_decision),
                          player2_bomb_used :=
                            su_player2_bomb_used (state_update judge_decision)\<rparr>
                     else gs);
                  gs2 = gs1\<lparr>rounds := rounds gs1 @ [judge_decision]\<rparr>
              in Inr (gs2, judge_decision)))"

text \<open>
  A sequence of \<^verbatim>\<open>play_round\<close> calls on one game state, each call with its own
  input and player-1 move; an error ends the sequence, as the exception would.
\<close>

fun play_rounds ::
  "client option \<Rightarrow> string \<Rightarrow> game_state \<Rightarrow> (string \<times> string option) list
     \<Rightarrow> error + game_state" where
  "play_rounds cl system_prompt gs [] = Inr gs"
| "play_rounds cl system_prompt gs ((inp, p1) # rest) =
     (case play_round cl system_prompt gs inp p1 of
        Inl e \<Rightarrow> Inl e
      | Inr (gs', d) \<Rightarrow> play_rounds cl system_prompt gs' rest)"


section \<open>The match: tally of three rounds and reset\<close>

text \<open>\<^verbatim>\<open>rd.get("game_logic", {}).get("round_winner")\<close>.\<close>

definition winner_of :: "decision \<Rightarrow> string option" where
  "winner_of rd = (case game_logic rd of None \<Rightarrow> None | Some gl \<Rightarrow> round_winner gl)"

text \<open>The loop over \<^verbatim>\<open>last_three\<close>, with the three counters as its state.\<close>

fun tally :: "decision list \<Rightarrow> int \<times> int \<times> int \<Rightarrow> int \<times> int \<times> int" where
  "tally [] (user_wins, bot_wins, draws) = (user_wins, bot_wins, draws)"
| "tally (rd # rest) (user_wins, bot_wins, draws) =
     (let rw = winner_of rd
      in if rw = Some ''player2'' then tally rest (user_wins + 1, bot_wins, draws)
         else if rw = Some ''player1'' then tally rest (user_wins, bot_wins + 1, draws)
         else tally rest (user_wins, bot_wins, draws + 1))"

text \<open>Lines 318 to 335: the counters and the final verdict for the given records.\<close>

definition match_aggregator :: "decision list \<Rightarrow> int \<times> int \<times> int \<times> string" where
  "match_aggregator last_three =
     (let (user_wins, bot_wins, draws) = tally last_three (0, 0, 0);
          final =
            (if user_wins > bot_wins then ''User wins''
             else if bot_wins > user_wins then ''Bot wins''
             else ''Draw'')
      in (user_wins, bot_wins, draws, final))"

text \<open>
  \<^verbatim>\<open>print_round_result\<close> writes the decision to the console. The text it writes is
  left out; what is kept is whether it returns. It indexes every section of the decision,
  and the \<^verbatim>\<open>game_logic\<close> section only when the status is VALID (lines 112 to 117):
  for a VALID decision without that section the lookup raises \<^verbatim>\<open>KeyError\<close>.
\<close>

definition print_round_result :: "decision \<Rightarrow> error + unit" where
  "print_round_result judge_decision =
     (if status (validation judge_decision) = ''VALID'' then
        (case game_logic judge_decision of
           None \<Rightarrow> Inl KeyError
         | Some gl \<Rightarrow> Inr ())
      else Inr ())"

text \<open>
  One pass of the game loop of \<^verbatim>\<open>main\<close>, for an input line already stripped and a
  bot move already drawn: the session ends, the prompt is repeated, or a round is played
  and displayed. A played round yields the next game state and, when the history has
  reached a multiple of three, the tally of the last three rounds.
\<close>

datatype loop_result =
  Quit
  | Reprompt
  | Played game_state "(int \<times> int \<times> int \<times> string) option"

definition main_loop_body ::
  "client option \<Rightarrow> string \<Rightarrow> game_state \<Rightarrow> string \<Rightarrow> string \<Rightarrow> error + loop_result" where
  "main_loop_body cl system_prompt gs player_input ai_move =
     (if lower player_input \<in> set [''quit'', ''exit'', ''q''] then Inr Quit
      else if player_input = [] then Inr Reprompt
      else
        (case play_round cl system_prompt gs player_input (Some ai_move) of
           Inl e \<Rightarrow> Inl e
         | Inr (gs1, judge_decision) \<Rightarrow>
             (case print_round_result judge_decision of
                Inl e \<Rightarrow> Inl e
              | Inr u \<Rightarrow>
                  (let gs2 = gs1\<lparr>round_number := round_number gs1 + 1\<rparr>
                   in if length (rounds gs2) mod 3 = 0 then
                        (let last_three = drop (length (rounds gs2) - 3) (rounds gs2)
                         in Inr (Played initialize_game
                                   (Some (match_aggregator last_three))))
                      else Inr (Played gs2 None)))))"


section \<open>Sample rounds\<close>

text \<open>
  Shorthand for the concrete rounds the examples below run: a context of round 1 with the
  given bot move, input line and player-2 bomb flag, player 1's flag being unset.
\<close>

abbreviation (input) sample_context :: "string \<Rightarrow> string \<Rightarrow> bool \<Rightarrow> game_context" where
  "sample_context p1 inp used \<equiv>
     \<lparr>gc_round_number = 1, gc_player1_move = Some p1, gc_player2_move = Some inp,
      gc_player1_bomb_used = False, gc_player2_bomb_used = used\<rparr>"

abbreviation (input) sample_round :: "string \<Rightarrow> string \<Rightarrow> bool \<Rightarrow> decision" where
  "sample_round p1 inp used \<equiv> mock_judge_response [] (sample_context p1 inp used)"


section \<open>Facts about the string functions and the loops\<close>

lemma startswith_iff: "startswith s k \<longleftrightarrow> (\<exists>ss. s = k @ ss)"
  by (induction s k rule: startswith.induct) auto

text \<open>\<open>str_in\<close> is the substring test: \<open>k\<close> occurs in \<open>s\<close> as a contiguous block.\<close>

lemma str_in_iff: "str_in k s \<longleftrightarrow> (\<exists>ps ss. s = ps @ k @ ss)"
proof (induction s)
  case Nil
  show ?case by simp
next
  case (Cons c cs)
  show ?case
  proof
    assume "str_in k (c # cs)"
    then consider "startswith (c # cs) k" | "str_in k cs" by auto
    then show "\<exists>ps ss. c # cs = ps @ k @ ss"
    proof cases
      case 1
      then obtain ss where "c # cs = k @ ss" by (auto simp: startswith_iff)
      then have "c # cs = [] @ k @ ss" by simp
      then show ?thesis by blast
    next
      case 2
      then obtain ps ss where "cs = ps @ k @ ss" using Cons.IH by blast
      then have "c # cs = (c # ps) @ k @ ss" by simp
      then show ?thesis by blast
    qed
  next
    assume "\<exists>ps ss. c # cs = ps @ k @ ss"
    then obtain ps ss where e: "c # cs = ps @ k @ ss" by blast
    show "str_in k (c # cs)"
    proof (cases ps)
      case Nil
      with e have "startswith (c # cs) k" by (auto simp: startswith_iff)
      then show ?thesis by simp
    next
      case (Cons p ps')
      with e have "cs = ps' @ k @ ss" by simp
      then have "str_in k cs" using Cons.IH by blast
      then show ?thesis by simp
    qed
  qed
qed

lemma any_in_iff: "any_in keys s \<longleftrightarrow> (\<exists>k \<in> set keys. \<exists>ps ss. s = ps @ k @ ss)"
  by (simp add: any_in_def list_ex_iff str_in_iff)

text \<open>The inner loop sets the category exactly when one of its keys occurs.\<close>

lemma scan_keys_any:
  "scan_keys raw_l mv keys mu = (if any_in keys raw_l then Some mv else mu)"
  by (induction keys) (auto simp: any_in_def)


section \<open>Facts about the mock judge's decision\<close>

lemma mock_validation:
  "validation (mock_judge_response sp ctx) =
     \<lparr>status =
        fst (validate
               (intent_resolver (case gc_player2_move ctx of None \<Rightarrow> [] | Some s \<Rightarrow> s))
               (gc_player2_bomb_used ctx)),
      reason =
        snd (validate
               (intent_resolver (case gc_player2_move ctx of None \<Rightarrow> [] | Some s \<Rightarrow> s))
               (gc_player2_bomb_used ctx))\<rparr>"
  by (simp add: mock_judge_response_def Let_def split: prod.splits)

lemma mock_accepted:
  "move_accepted (final_result (mock_judge_response sp ctx)) =
     (status (validation (mock_judge_response sp ctx)) = ''VALID'')"
  by (simp add: mock_judge_response_def Let_def split: prod.splits)

lemma mock_p1_flag:
  "su_player1_bomb_used (state_update (mock_judge_response sp ctx)) = gc_player1_bomb_used ctx"
  by (simp add: mock_judge_response_def state_updates_def Let_def split: prod.splits)

lemma mock_p2_flag:
  "su_player2_bomb_used (state_update (mock_judge_response sp ctx)) =
     (if status (validation (mock_judge_response sp ctx)) = ''VALID''
         \<and> move_understood (intent_understanding (mock_judge_response sp ctx)) = Some ''bomb''
      then True else gc_player2_bomb_used ctx)"
  by (simp add: mock_judge_response_def state_updates_def Let_def split: prod.splits)

lemma mock_game_logic:
  "game_logic (mock_judge_response sp ctx) =
     Some \<lparr>gl_player1_move = gc_player1_move ctx,
           gl_player2_move = move_understood (intent_understanding (mock_judge_response sp ctx)),
           round_winner =
             fst (simple_game_logic (status (validation (mock_judge_response sp ctx)))
                    (gc_player1_move ctx)
                    (move_understood (intent_understanding (mock_judge_response sp ctx)))),
           round_explanation =
             snd (simple_game_logic (status (validation (mock_judge_response sp ctx)))
                    (gc_player1_move ctx)
                    (move_understood (intent_understanding (mock_judge_response sp ctx))))\<rparr>"
  by (simp add: mock_judge_response_def Let_def split: prod.splits)

lemma mock_move_understood:
  "move_understood (intent_understanding (mock_judge_response sp ctx)) =
     intent_resolver (case gc_player2_move ctx of None \<Rightarrow> [] | Some s \<Rightarrow> s)"
  by (simp add: mock_judge_response_def Let_def split: prod.splits)


text \<open>In mock mode a round always returns: the decision is the mock judge's.\<close>

lemma play_round_None:
  "play_round None sp gs inp p1 =
     (let d = mock_judge_response sp
                \<lparr>gc_round_number = round_number gs, gc_player1_move = p1,
                 gc_player2_move = Some inp,
                 gc_player1_bomb_used = player1_bomb_used gs,
                 gc_player2_bomb_used = player2_bomb_used gs\<rparr>
      in Inr ((if move_accepted (final_result d)
               then gs\<lparr>player1_bomb_used := su_player1_bomb_used (state_update d),
                       player2_bomb_used := su_player2_bomb_used (state_update d)\<rparr>
               else gs)\<lparr>rounds := rounds gs @ [d]\<rparr>, d))"
  by (simp add: play_round_def Let_def)

lemma play_round_None_mono:
  "\<exists>gs' d. play_round None sp gs inp p1 = Inr (gs', d)
     \<and> (player1_bomb_used gs \<longrightarrow> player1_bomb_used gs')
     \<and> (player2_bomb_used gs \<longrightarrow> player2_bomb_used gs')"
  by (simp add: play_round_None Let_def mock_accepted mock_p1_flag mock_p2_flag)

text \<open>
  A VALID decision without game-logic section, as an external judge may send it, cannot be
  displayed: the pass of the game loop ends with the exception, before tally and reset.
\<close>

lemma display_failure_ends_pass:
  assumes "lower inp \<notin> set [''quit'', ''exit'', ''q'']" and "inp \<noteq> []"
    and "play_round cl sp gs inp (Some ai) = Inr (gs1, d)"
    and "status (validation d) = ''VALID''" and "game_logic d = None"
  shows "main_loop_body cl sp gs inp ai = Inl KeyError"
  using assms by (simp add: main_loop_body_def print_round_result_def)

text \<open>The tally loop adds to each counter the number of records of its kind.\<close>

lemma tally_adds:
  "tally rds (u, b, d) =
     (u + int (length (filter (\<lambda>rd. winner_of rd = Some ''player2'') rds)),
      b + int (length (filter (\<lambda>rd. winner_of rd = Some ''player1'') rds)),
      d + int (length (filter (\<lambda>rd. winner_of rd \<noteq> Some ''player2''
                                   \<and> winner_of rd \<noteq> Some ''player1'') rds)))"
  by (induction rds arbitrary: u b d) (simp_all add: Let_def)


section \<open>Intent resolution\<close>

text \<open>
  An input with a bomb synonym and no refusal phrase need not resolve to bomb: the
  categories are scanned in the order rock, paper, scissors, bomb, and \<open>rock bomb\<close>
  resolves to rock.
\<close>

theorem bomb_synonym_shadowed_by_rock:
  "any_in bomb_keys (lower ''rock bomb'')
   \<and> \<not> any_in refuses (lower ''rock bomb'')
   \<and> intent_resolver ''rock bomb'' = Some ''rock''
   \<and> intent_resolver ''rock bomb'' \<noteq> Some ''bomb''"
  by code_simp

text \<open>
  Claim C1, as amended: a raw input whose lowercase form contains a bomb synonym, no
  refusal phrase and no synonym of rock, paper or scissors resolves to bomb.
\<close>

theorem bomb_synonym_alone_resolves_to_bomb:
  assumes "any_in bomb_keys (lower raw)"
    and "\<not> any_in refuses (lower raw)"
    and "\<not> any_in rock_keys (lower raw)"
    and "\<not> any_in paper_keys (lower raw)"
    and "\<not> any_in scissors_keys (lower raw)"
  shows "intent_resolver raw = Some ''bomb''"
  using assms by (simp add: intent_resolver_def move_map_def scan_keys_any truthy_def)

theorem bomb_synonym_alone_resolves_to_bomb_witness:
  "any_in bomb_keys (lower ''BOOM'')
   \<and> \<not> any_in refuses (lower ''BOOM'')
   \<and> \<not> any_in rock_keys (lower ''BOOM'')
   \<and> \<not> any_in paper_keys (lower ''BOOM'')
   \<and> \<not> any_in scissors_keys (lower ''BOOM'')
   \<and> intent_resolver ''BOOM'' = Some ''bomb''"
proof -
  have a: "any_in bomb_keys (lower ''BOOM'')" by code_simp
  have b: "\<not> any_in refuses (lower ''BOOM'')" by code_simp
  have c: "\<not> any_in rock_keys (lower ''BOOM'')" by code_simp
  have d: "\<not> any_in paper_keys (lower ''BOOM'')" by code_simp
  have e: "\<not> any_in scissors_keys (lower ''BOOM'')" by code_simp
  show ?thesis
    using a b c d e bomb_synonym_alone_resolves_to_bomb [OF a b c d e] by simp
qed

text \<open>
  Claim C7: a raw input whose lowercase form contains a refusal phrase resolves to no
  move, whatever move synonyms it also contains.
\<close>

theorem refusal_overrides_intent:
  "any_in refuses (lower raw) \<Longrightarrow> intent_resolver raw = None"
  by (simp add: intent_resolver_def)

theorem refusal_overrides_intent_witness:
  "any_in refuses (lower ''I pass the BOMB'')
   \<and> any_in bomb_keys (lower ''I pass the BOMB'')
   \<and> intent_resolver ''I pass the BOMB'' = None"
proof -
  have a: "any_in refuses (lower ''I pass the BOMB'')" by code_simp
  have b: "any_in bomb_keys (lower ''I pass the BOMB'')" by code_simp
  show ?thesis using a b refusal_overrides_intent [OF a] by simp
qed


section \<open>Validation\<close>

text \<open>
  Claim C8: the validation status is one of UNCLEAR, INVALID and VALID, and each is
  produced in exactly its own case: UNCLEAR for no resolved move, INVALID for a resolved
  bomb when player 2's bomb is spent, VALID for every other combination.
\<close>

theorem validation_status_cases:
  "(fst (validate mu used) = ''UNCLEAR'') = (mu = None)
   \<and> (fst (validate mu used) = ''INVALID'') = (mu = Some ''bomb'' \<and> used)
   \<and> (fst (validate mu used) = ''VALID'') = (mu \<noteq> None \<and> \<not> (mu = Some ''bomb'' \<and> used))
   \<and> fst (validate mu used) \<in> {''UNCLEAR'', ''INVALID'', ''VALID''}"
  by (simp add: validate_def)

theorem validation_status_cases_witness:
  "fst (validate (Some ''bomb'') True) = ''INVALID''
   \<and> fst (validate (Some ''bomb'') True) \<noteq> ''VALID''
   \<and> fst (validate (Some ''bomb'') True) \<noteq> ''UNCLEAR''"
  using validation_status_cases [of "Some ''bomb''" True] by simp


section \<open>Round outcome\<close>

text \<open>
  Claim C4: on the four categories of \<open>move_map\<close> a valid round is a draw for equal
  moves, is won by the only bomb, and otherwise goes to player 1 exactly for rock against
  scissors, scissors against paper and paper against rock, else to player 2; the
  explanation is never the one of the branch for unexpected input.
\<close>

theorem outcome_on_four_categories:
  assumes "p1 \<in> set (map fst move_map)" and "p2 \<in> set (map fst move_map)"
  shows "fst (simple_game_logic ''VALID'' (Some p1) (Some p2)) =
           Some (if p1 = p2 then ''draw''
                 else if p1 = ''bomb'' then ''player1''
                 else if p2 = ''bomb'' then ''player2''
                 else if (p1, p2) \<in> {(''rock'', ''scissors''), (''scissors'', ''paper''),
                                      (''paper'', ''rock'')}
                   then ''player1''
                 else ''player2'')
         \<and> snd (simple_game_logic ''VALID'' (Some p1) (Some p2)) \<noteq>
             ''No clear winner (unexpected input).''"
proof -
  have c1: "p1 = ''rock'' \<or> p1 = ''paper'' \<or> p1 = ''scissors'' \<or> p1 = ''bomb''"
    using assms(1) by (simp add: move_map_def)
  have c2: "p2 = ''rock'' \<or> p2 = ''paper'' \<or> p2 = ''scissors'' \<or> p2 = ''bomb''"
    using assms(2) by (simp add: move_map_def)
  from c1 c2 show ?thesis
    by (elim disjE) (simp_all add: simple_game_logic_def beats_get_def beats_def fmt_def)
qed

theorem outcome_on_four_categories_witness:
  "''bomb'' \<in> set (map fst move_map)
   \<and> ''paper'' \<in> set (map fst move_map)
   \<and> fst (simple_game_logic ''VALID'' (Some ''bomb'') (Some ''paper'')) = Some ''player1''
   \<and> snd (simple_game_logic ''VALID'' (Some ''bomb'') (Some ''paper'')) \<noteq>
        ''No clear winner (unexpected input).''"
proof -
  have a: "''bomb'' \<in> set (map fst move_map)" by (simp add: move_map_def)
  have b: "''paper'' \<in> set (map fst move_map)" by (simp add: move_map_def)
  show ?thesis using a b outcome_on_four_categories [OF a b] by simp
qed


section \<open>The decision record\<close>

text \<open>
  A rejected round still carries a filled game-logic section: with player 2's bomb spent,
  the input \<open>nuke em\<close> against rock is INVALID, and the section holds both moves and the
  placeholder explanation.
\<close>

theorem rejected_round_has_game_logic:
  "status (validation (sample_round ''rock'' ''nuke em'' True)) = ''INVALID''
   \<and> game_logic (sample_round ''rock'' ''nuke em'' True) =
       Some \<lparr>gl_player1_move = Some ''rock'', gl_player2_move = Some ''bomb'',
             round_winner = None, round_explanation = ''No winner determined.''\<rparr>"
  by code_simp

text \<open>
  Claim C2, as amended: when the validation status is not VALID, it is INVALID or UNCLEAR
  and the game-logic section of the mock judge's decision is present; its round winner is
  null and its explanation is the placeholder, while it still carries player 1's move as
  supplied and player 2's move as understood, which is bomb on an INVALID round and null
  on an UNCLEAR one.
\<close>

theorem game_logic_of_unaccepted_round:
  assumes "status (validation (mock_judge_response sp ctx)) \<noteq> ''VALID''"
  shows "game_logic (mock_judge_response sp ctx) =
           Some \<lparr>gl_player1_move = gc_player1_move ctx,
                 gl_player2_move =
                   (if status (validation (mock_judge_response sp ctx)) = ''INVALID''
                    then Some ''bomb'' else None),
                 round_winner = None,
                 round_explanation = ''No winner determined.''\<rparr>
     \<and> move_understood (intent_understanding (mock_judge_response sp ctx)) =
           (if status (validation (mock_judge_response sp ctx)) = ''INVALID''
            then Some ''bomb'' else None)
     \<and> (status (validation (mock_judge_response sp ctx)) = ''INVALID''
        \<or> status (validation (mock_judge_response sp ctx)) = ''UNCLEAR'')"
proof -
  let ?mu = "intent_resolver (case gc_player2_move ctx of None \<Rightarrow> [] | Some s \<Rightarrow> s)"
  let ?st = "status (validation (mock_judge_response sp ctx))"
  have st: "?st = fst (validate ?mu (gc_player2_bomb_used ctx))"
    by (simp add: mock_validation)
  have mu: "move_understood (intent_understanding (mock_judge_response sp ctx)) = ?mu"
    by (rule mock_move_understood)
  have split: "(?st = ''INVALID'' \<and> ?mu = Some ''bomb'') \<or> (?st = ''UNCLEAR'' \<and> ?mu = None)"
    using assms unfolding st by (auto simp: validate_def split: if_splits)
  have understood: "?mu = (if ?st = ''INVALID'' then Some ''bomb'' else None)"
    using split by auto
  have logic: "game_logic (mock_judge_response sp ctx) =
           Some \<lparr>gl_player1_move = gc_player1_move ctx, gl_player2_move = ?mu,
                 round_winner = None, round_explanation = ''No winner determined.''\<rparr>"
    using assms by (simp add: mock_game_logic mu simple_game_logic_def)
  from split have third: "?st = ''INVALID'' \<or> ?st = ''UNCLEAR''" by blast
  from logic understood have first: "game_logic (mock_judge_response sp ctx) =
           Some \<lparr>gl_player1_move = gc_player1_move ctx,
                 gl_player2_move = (if ?st = ''INVALID'' then Some ''bomb'' else None),
                 round_winner = None, round_explanation = ''No winner determined.''\<rparr>"
    by simp
  from mu understood have second:
    "move_understood (intent_understanding (mock_judge_response sp ctx)) =
       (if ?st = ''INVALID'' then Some ''bomb'' else None)"
    by simp
  from first second third show ?thesis by blast
qed

theorem game_logic_of_unaccepted_round_witness:
  "status (validation (sample_round ''paper'' ''BOOM'' True)) = ''INVALID''
   \<and> game_logic (sample_round ''paper'' ''BOOM'' True) =
       Some \<lparr>gl_player1_move = Some ''paper'', gl_player2_move = Some ''bomb'',
             round_winner = None, round_explanation = ''No winner determined.''\<rparr>
   \<and> status (validation (sample_round ''rock'' ''no idea'' False)) = ''UNCLEAR''
   \<and> game_logic (sample_round ''rock'' ''no idea'' False) =
       Some \<lparr>gl_player1_move = Some ''rock'', gl_player2_move = None,
             round_winner = None, round_explanation = ''No winner determined.''\<rparr>"
proof -
  have a: "status (validation (sample_round ''paper'' ''BOOM'' True)) = ''INVALID''"
    by code_simp
  have b: "status (validation (sample_round ''rock'' ''no idea'' False)) = ''UNCLEAR''"
    by code_simp
  have a': "status (validation (sample_round ''paper'' ''BOOM'' True)) \<noteq> ''VALID''"
    using a by simp
  have b': "status (validation (sample_round ''rock'' ''no idea'' False)) \<noteq> ''VALID''"
    using b by simp
  show ?thesis
    using a b game_logic_of_unaccepted_round [OF a'] game_logic_of_unaccepted_round [OF b']
    by simp
qed

text \<open>
  Claim C3: the mock judge's state update carries player 1's bomb flag exactly as the
  context supplied it, for every context.
\<close>

theorem player1_flag_copied:
  "su_player1_bomb_used (state_update (mock_judge_response sp ctx)) = gc_player1_bomb_used ctx"
  by (rule mock_p1_flag)

theorem player1_flag_copied_witness:
  "status (validation (sample_round ''bomb'' ''rock'' False)) = ''VALID''
   \<and> su_player1_bomb_used (state_update (sample_round ''bomb'' ''rock'' False)) = False"
proof -
  have a: "status (validation (sample_round ''bomb'' ''rock'' False)) = ''VALID''"
    by code_simp
  show ?thesis
    using a player1_flag_copied [of "[]" "sample_context ''bomb'' ''rock'' False"] by simp
qed


section \<open>Committing the state\<close>

text \<open>
  Claim C5: in mock mode a round always returns, and when its validation status is not
  VALID the bomb flags of the state update and of the game state after the round are
  those of the game state before it. With any client, a round whose decision is not
  accepted leaves both flags of the game state as they were.
\<close>

theorem unaccepted_round_keeps_flags:
  "(\<exists>gs' d. play_round None sp gs inp p1 = Inr (gs', d)
      \<and> (status (validation d) \<noteq> ''VALID'' \<longrightarrow>
           su_player1_bomb_used (state_update d) = player1_bomb_used gs
         \<and> su_player2_bomb_used (state_update d) = player2_bomb_used gs
         \<and> player1_bomb_used gs' = player1_bomb_used gs
         \<and> player2_bomb_used gs' = player2_bomb_used gs))
   \<and> (play_round cl sp gs inp p1 = Inr (gs2, d2) \<and> \<not> move_accepted (final_result d2) \<longrightarrow>
         player1_bomb_used gs2 = player1_bomb_used gs
       \<and> player2_bomb_used gs2 = player2_bomb_used gs)"
proof
  show "\<exists>gs' d. play_round None sp gs inp p1 = Inr (gs', d)
      \<and> (status (validation d) \<noteq> ''VALID'' \<longrightarrow>
           su_player1_bomb_used (state_update d) = player1_bomb_used gs
         \<and> su_player2_bomb_used (state_update d) = player2_bomb_used gs
         \<and> player1_bomb_used gs' = player1_bomb_used gs
         \<and> player2_bomb_used gs' = player2_bomb_used gs)"
    by (simp add: play_round_None Let_def mock_accepted mock_p1_flag mock_p2_flag)
next
  show "play_round cl sp gs inp p1 = Inr (gs2, d2) \<and> \<not> move_accepted (final_result d2) \<longrightarrow>
         player1_bomb_used gs2 = player1_bomb_used gs
       \<and> player2_bomb_used gs2 = player2_bomb_used gs"
    by (auto simp: play_round_def Let_def split: option.splits backend_reply.splits)
qed

theorem unaccepted_round_keeps_flags_witness:
  "\<exists>gs' d. play_round None []
       \<lparr>round_number = 2, player1_bomb_used = False, player2_bomb_used = True, rounds = []\<rparr>
       ''nuke em'' (Some ''rock'') = Inr (gs', d)
     \<and> status (validation d) = ''INVALID''
     \<and> \<not> move_accepted (final_result d)
     \<and> su_player1_bomb_used (state_update d) = False
     \<and> su_player2_bomb_used (state_update d) = True
     \<and> player1_bomb_used gs' = False
     \<and> player2_bomb_used gs' = True"
proof -
  let ?gs = "\<lparr>round_number = 2, player1_bomb_used = False, player2_bomb_used = True,
              rounds = []\<rparr>"
  note inst = unaccepted_round_keeps_flags [of "[]" ?gs "''nuke em''" "Some ''rock''" None]
  obtain gs' d where r: "play_round None [] ?gs ''nuke em'' (Some ''rock'') = Inr (gs', d)"
    and keep: "status (validation d) \<noteq> ''VALID'' \<longrightarrow>
           su_player1_bomb_used (state_update d) = player1_bomb_used ?gs
         \<and> su_player2_bomb_used (state_update d) = player2_bomb_used ?gs
         \<and> player1_bomb_used gs' = player1_bomb_used ?gs
         \<and> player2_bomb_used gs' = player2_bomb_used ?gs"
    using inst by blast
  have "status (validation (snd (projr
          (play_round None [] ?gs ''nuke em'' (Some ''rock''))))) = ''INVALID''"
    by code_simp
  with r have s: "status (validation d) = ''INVALID''" by simp
  have "\<not> move_accepted (final_result (snd (projr
          (play_round None [] ?gs ''nuke em'' (Some ''rock'')))))"
    by code_simp
  with r have m: "\<not> move_accepted (final_result d)" by simp
  have "player1_bomb_used gs' = player1_bomb_used ?gs
       \<and> player2_bomb_used gs' = player2_bomb_used ?gs"
    using inst [of gs' d] r m by blast
  with keep r s m show ?thesis by simp
qed

text \<open>
  Claim C6: in mock mode every sequence of \<^verbatim>\<open>play_round\<close> calls on a game state
  returns, and a bomb flag that is set before the sequence is set after it.
\<close>

theorem bomb_flags_never_cleared:
  "\<exists>gs'. play_rounds None sp gs calls = Inr gs'
     \<and> (player1_bomb_used gs \<longrightarrow> player1_bomb_used gs')
     \<and> (player2_bomb_used gs \<longrightarrow> player2_bomb_used gs')"
proof (induction calls arbitrary: gs)
  case Nil
  show ?case by simp
next
  case (Cons c calls)
  obtain inp p1 where c: "c = (inp, p1)" by (cases c)
  obtain gs1 d where r: "play_round None sp gs inp p1 = Inr (gs1, d)"
    and m1: "player1_bomb_used gs \<longrightarrow> player1_bomb_used gs1"
    and m2: "player2_bomb_used gs \<longrightarrow> player2_bomb_used gs1"
    using play_round_None_mono [of sp gs inp p1] by blast
  obtain gs' where r': "play_rounds None sp gs1 calls = Inr gs'"
    and n1: "player1_bomb_used gs1 \<longrightarrow> player1_bomb_used gs'"
    and n2: "player2_bomb_used gs1 \<longrightarrow> player2_bomb_used gs'"
    using Cons.IH [of gs1] by blast
  from c r r' have "play_rounds None sp gs (c # calls) = Inr gs'" by simp
  with m1 m2 n1 n2 show ?case by blast
qed

theorem bomb_flags_never_cleared_witness:
  "\<exists>gs'. play_rounds None []
       \<lparr>round_number = 1, player1_bomb_used = True, player2_bomb_used = True, rounds = []\<rparr>
       [(''rock'', Some ''paper''), (''nuke em'', Some ''bomb''), (''skip'', Some ''rock'')]
         = Inr gs'
     \<and> player1_bomb_used gs' \<and> player2_bomb_used gs'"
  using bomb_flags_never_cleared
    [of "[]"
        "\<lparr>round_number = 1, player1_bomb_used = True, player2_bomb_used = True, rounds = []\<rparr>"
        "[(''rock'', Some ''paper''), (''nuke em'', Some ''bomb''), (''skip'', Some ''rock'')]"]
  by simp


section \<open>The match\<close>

text \<open>
  Claim C9: the tally counts the records whose round winner is player2 as user wins,
  those whose round winner is player1 as bot wins and all others (a null winner or no
  game-logic section included) as draws; the verdict is User wins when there are more
  user wins, Bot wins when there are more bot wins, Draw when the two counts are equal.
\<close>

theorem tally_and_verdict:
  assumes "match_aggregator rds = (user_wins, bot_wins, draws, final)"
  shows "user_wins = int (length (filter (\<lambda>rd. winner_of rd = Some ''player2'') rds))
     \<and> bot_wins = int (length (filter (\<lambda>rd. winner_of rd = Some ''player1'') rds))
     \<and> draws = int (length (filter (\<lambda>rd. winner_of rd \<noteq> Some ''player2''
                                        \<and> winner_of rd \<noteq> Some ''player1'') rds))
     \<and> (user_wins > bot_wins \<longrightarrow> final = ''User wins'')
     \<and> (bot_wins > user_wins \<longrightarrow> final = ''Bot wins'')
     \<and> (user_wins = bot_wins \<longrightarrow> final = ''Draw'')"
  using assms by (auto simp: match_aggregator_def tally_adds Let_def)

theorem tally_and_verdict_witness:
  "match_aggregator
     [sample_round ''rock'' ''paper'' False, sample_round ''scissors'' ''rock'' False,
      sample_round ''rock'' ''scissors'' False] = (2, 1, 0, ''User wins'')
   \<and> match_aggregator
     [sample_round ''paper'' ''rock'' False, sample_round ''rock'' ''no idea'' False,
      sample_round ''rock'' ''rock'' False] = (0, 1, 2, ''Bot wins'')
   \<and> match_aggregator
     [sample_round ''rock'' ''nuke em'' True, sample_round ''rock'' ''no idea'' False,
      sample_round ''rock'' ''rock'' False] = (0, 0, 3, ''Draw'')
   \<and> int (length (filter (\<lambda>rd. winner_of rd = Some ''player2'')
       [sample_round ''rock'' ''paper'' False, sample_round ''scissors'' ''rock'' False,
        sample_round ''rock'' ''scissors'' False])) = 2
   \<and> int (length (filter (\<lambda>rd. winner_of rd = Some ''player1'')
       [sample_round ''paper'' ''rock'' False, sample_round ''rock'' ''no idea'' False,
        sample_round ''rock'' ''rock'' False])) = 1
   \<and> int (length (filter (\<lambda>rd. winner_of rd \<noteq> Some ''player2''
                              \<and> winner_of rd \<noteq> Some ''player1'')
       [sample_round ''rock'' ''nuke em'' True, sample_round ''rock'' ''no idea'' False,
        sample_round ''rock'' ''rock'' False])) = 3"
proof -
  have a: "match_aggregator
     [sample_round ''rock'' ''paper'' False, sample_round ''scissors'' ''rock'' False,
      sample_round ''rock'' ''scissors'' False] = (2, 1, 0, ''User wins'')"
    by code_simp
  have b: "match_aggregator
     [sample_round ''paper'' ''rock'' False, sample_round ''rock'' ''no idea'' False,
      sample_round ''rock'' ''rock'' False] = (0, 1, 2, ''Bot wins'')"
    by code_simp
  have c: "match_aggregator
     [sample_round ''rock'' ''nuke em'' True, sample_round ''rock'' ''no idea'' False,
      sample_round ''rock'' ''rock'' False] = (0, 0, 3, ''Draw'')"
    by code_simp
  show ?thesis
    using a b c tally_and_verdict [OF a] tally_and_verdict [OF b] tally_and_verdict [OF c]
    by simp
qed



end
